theory Spec2Isabelle
  imports Main "HOL-Library.Multiset"
begin

section \<open>Strings and the helpers of the Go standard library the converter calls\<close>

text \<open>
  A Go string is a byte sequence; it is modelled as a \<open>string\<close> (a list of 8-bit
  characters), so \<open>length\<close> is Go's \<open>len\<close> and \<open>take n\<close> is the slice \<open>s[:n]\<close>.
\<close>

definition isUpperASCII :: "char \<Rightarrow> bool" where
  "isUpperASCII c = (65 \<le> (of_char c :: nat) \<and> (of_char c :: nat) \<le> 90)"

definition lowerByte :: "char \<Rightarrow> char" where
  "lowerByte c = (if isUpperASCII c then char_of ((of_char c :: nat) + 32) else c)"

text \<open>
  \<open>strings.ToLower\<close>. An ASCII capital becomes its small letter. Outside ASCII, Go maps
  each rune through \<open>unicode.ToLower\<close>; exactly two runes beyond ASCII have an ASCII
  lower case: U+0130 (bytes C4 B0), which becomes \<open>i\<close>, and U+212A (bytes E2 84 AA),
  which becomes \<open>k\<close>. Every other rune beyond ASCII stays beyond ASCII (all its bytes
  are at least 0x80), and the only consumer of the result, the replacement of
  \<open>nonDNSSafeRegex\<close>, turns any run of such bytes into one dash whatever the bytes are;
  so they are left as they are here.
\<close>

fun ToLower :: "string \<Rightarrow> string" where
  "ToLower (a # b # c # cs) =
     (if a = CHR 0xE2 \<and> b = CHR 0x84 \<and> c = CHR 0xAA then CHR ''k'' # ToLower cs
      else if a = CHR 0xC4 \<and> b = CHR 0xB0 then CHR ''i'' # ToLower (c # cs)
      else lowerByte a # ToLower (b # c # cs))"
| "ToLower [a, b] =
     (if a = CHR 0xC4 \<and> b = CHR 0xB0 then [CHR ''i''] else lowerByte a # ToLower [b])"
| "ToLower [a] = [lowerByte a]"
| "ToLower [] = []"

text \<open>The character class \<open>[a-z0-9-]\<close> of \<open>nonDNSSafeRegex\<close>, and its letters and digits.\<close>

definition isAlnum :: "char \<Rightarrow> bool" where
  "isAlnum c = ((97 \<le> (of_char c :: nat) \<and> (of_char c :: nat) \<le> 122) \<or>
                (48 \<le> (of_char c :: nat) \<and> (of_char c :: nat) \<le> 57))"

definition isDash :: "char \<Rightarrow> bool" where
  "isDash c = (c = CHR ''-'')"

definition isDNSSafe :: "char \<Rightarrow> bool" where
  "isDNSSafe c = (isAlnum c \<or> isDash c)"

text \<open>
  \<open>nonDNSSafeRegex.ReplaceAllString(name, "-")\<close> with the pattern \<open>[^a-z0-9-]+\<close>: every
  maximal run of characters outside the class becomes one dash. The flag says that the
  previous character belonged to such a run, whose dash is already written.
\<close>

fun replaceRuns :: "bool \<Rightarrow> string \<Rightarrow> string" where
  "replaceRuns inRun [] = []"
| "replaceRuns inRun (c # cs) =
     (if isDNSSafe c then c # replaceRuns False cs
      else if inRun then replaceRuns True cs
      else CHR ''-'' # replaceRuns True cs)"

definition nonDNSSafeReplaceAll :: "string \<Rightarrow> string" where
  "nonDNSSafeReplaceAll s = replaceRuns False s"

text \<open>
  \<open>edgeDashRegex.ReplaceAllString(name, "")\<close> with the pattern \<open>^-+|-+$\<close>: the run of
  dashes at the start and the run of dashes at the end are deleted.
\<close>

definition edgeDashReplaceAll :: "string \<Rightarrow> string" where
  "edgeDashReplaceAll s = rev (dropWhile isDash (rev (dropWhile isDash s)))"

section \<open>The name sanitizer\<close>

definition sanitizeName :: "string \<Rightarrow> string" where
  "sanitizeName name =
     (if name = [] then ''unnamed''
      else let name1 = ToLower name;
               name2 = nonDNSSafeReplaceAll name1;
               name3 = edgeDashReplaceAll name2
           in if length name3 > 63 then take 63 name3 else name3)"

section \<open>The image mapper\<close>

text \<open>\<open>strings.HasPrefix\<close> and \<open>strings.Contains\<close>.\<close>

fun HasPrefix :: "string \<Rightarrow> string \<Rightarrow> bool" where
  "HasPrefix s [] = True"
| "HasPrefix [] (p # ps) = False"
| "HasPrefix (c # cs) (p # ps) = (c = p \<and> HasPrefix cs ps)"

fun Contains :: "string \<Rightarrow> string \<Rightarrow> bool" where
  "Contains [] substr = (substr = [])"
| "Contains (c # cs) substr = (HasPrefix (c # cs) substr \<or> Contains cs substr)"

definition mapRunsOnToImage :: "string \<Rightarrow> string" where
  "mapRunsOnToImage runsOn =
     (if Contains runsOn ''ubuntu-22.04'' \<or> Contains runsOn ''ubuntu-latest'' then ''ubuntu:22.04''
      else if Contains runsOn ''ubuntu-20.04'' then ''ubuntu:20.04''
      else ''alpine:latest'')"

section \<open>The workflow model read by the parser\<close>

text \<open>
  The fields of \<open>model.Step\<close>, \<open>model.Job\<close> and \<open>model.Workflow\<close> that the converter
  reads. \<open>Step_With\<close> is the Go map \<open>With\<close>: \<open>None\<close> is the nil map, and the pairs are
  listed in the order in which \<open>fmt\<close> prints a map, by ascending key. \<open>Job_Needs\<close> and
  \<open>Job_RunsOn\<close> are what the methods \<open>Needs()\<close> and \<open>RunsOn()\<close> return. \<open>WF_Jobs\<close> is the
  Go map \<open>Jobs\<close>: its keys are distinct, and the order of the list is the order in which
  one \<open>range\<close> over the map visits the entries, which Go leaves unspecified.
\<close>

record Step =
  Step_Name :: string
  Step_Run :: string
  Step_Uses :: string
  Step_With :: "(string \<times> string) list option"

record Job =
  Job_Steps :: "Step list"
  Job_Needs :: "string list"
  Job_RunsOn :: "string list"

record Workflow =
  WF_Name :: string
  WF_Jobs :: "(string \<times> Job) list"

section \<open>The Argo document\<close>

record WorkflowStep =
  WS_Name :: string
  WS_Template :: string

text \<open>
  \<open>Container_Image\<close> and \<open>Container_Command\<close> are the fields \<open>Image\<close> and \<open>Command\<close> of the
  \<open>corev1.Container\<close> embedded in a \<open>wfv1.ScriptTemplate\<close>.
\<close>

record ScriptTemplate =
  Container_Image :: string
  Container_Command :: "string list"
  Source :: string

record DAGTask =
  Task_Name :: string
  Task_Template :: string
  Dependencies :: "string list"

record DAGTemplate =
  Tasks :: "DAGTask list"

record Template =
  Tmpl_Name :: string
  Steps :: "WorkflowStep list list"
  Script :: "ScriptTemplate option"
  DAG :: "DAGTemplate option"

record ArgoWorkflow =
  APIVersion :: string
  Kind :: string
  GenerateName :: string
  Templates :: "Template list"
  Entrypoint :: string
  Parallelism :: "int option"

section \<open>Formatting\<close>

text \<open>The verb \<open>%d\<close> on a loop index, which is never negative.\<close>

fun showNat :: "nat \<Rightarrow> string" where
  "showNat n =
     (if n < 10 then [char_of (48 + n)]
      else showNat (n div 10) @ [char_of (48 + n mod 10)])"

text \<open>The verb \<open>%v\<close> on a \<open>map[string]string\<close>: \<open>map[k1:v1 k2:v2]\<close>.\<close>

fun joinWith :: "string \<Rightarrow> string list \<Rightarrow> string" where
  "joinWith sep [] = []"
| "joinWith sep [x] = x"
| "joinWith sep (x # y # ys) = x @ sep @ joinWith sep (y # ys)"

definition showMap :: "(string \<times> string) list \<Rightarrow> string" where
  "showMap kvs = ''map['' @ joinWith '' '' (map (\<lambda>(k, v). k @ '':'' @ v) kvs) @ '']''"

definition newline :: string where
  "newline = [CHR 0x0A]"

definition quote :: string where
  "quote = [CHR 0x22]"

definition banner :: string where
  "banner = replicate 64 (CHR ''*'')"

text \<open>The raw string literal of the placeholder, with its two \<open>%s\<close> filled in.\<close>

definition placeholderSource :: "string \<Rightarrow> string \<Rightarrow> string" where
  "placeholderSource uses withParams =
     newline @
     ''echo '' @ quote @ banner @ quote @ newline @
     ''echo '' @ quote @ ''TODO: Manually implement GHA Action: '' @ uses @ quote @ newline @
     ''echo '' @ quote @ withParams @ quote @ newline @
     ''echo '' @ quote @ banner @ quote @ newline @
     ''exit 1'' @ newline"

section \<open>The converter\<close>

text \<open>
  The body of the loop over \<open>ghaJob.Steps\<close>. The state is the job's template, whose
  \<open>Steps\<close> grow, and the list \<open>stepTemplates\<close>. The reference to the step is appended to
  the job's template before the step's kind is looked at; \<open>continue\<close> then leaves
  \<open>stepTemplates\<close> as it is.
\<close>

definition convertStep ::
  "string \<Rightarrow> string list \<Rightarrow> nat \<Rightarrow> Step \<Rightarrow> Template \<times> Template list \<Rightarrow> Template \<times> Template list"
where
  "convertStep jobTemplateName runsOn i ghaStep st =
     (let (jobTemplate, stepTemplates) = st;
          stepName0 = sanitizeName (Step_Name ghaStep);
          stepName = (if stepName0 = [] then ''step-'' @ showNat i else stepName0);
          stepTemplateName = jobTemplateName @ ''-'' @ stepName;
          jobTemplate' = jobTemplate\<lparr>Steps := Steps jobTemplate @
             [[\<lparr>WS_Name = stepName, WS_Template = stepTemplateName\<rparr>]]\<rparr>;
          baseImage = (case runsOn of r # _ \<Rightarrow> mapRunsOnToImage r | [] \<Rightarrow> ''alpine:latest'');
          stepTemplate = \<lparr>Tmpl_Name = stepTemplateName, Steps = [], Script = None, DAG = None\<rparr>
      in if Step_Run ghaStep \<noteq> [] then
           (jobTemplate', stepTemplates @ [stepTemplate\<lparr>Script := Some
              \<lparr>Container_Image = baseImage, Container_Command = [''bash'', ''-c''],
                Source = Step_Run ghaStep\<rparr>\<rparr>])
         else if Step_Uses ghaStep \<noteq> [] then
           (let withParams = (case Step_With ghaStep of
                                None \<Rightarrow> []
                              | Some kvs \<Rightarrow> ''Parameters (with): '' @ showMap kvs)
            in (jobTemplate', stepTemplates @ [stepTemplate\<lparr>Script := Some
              \<lparr>Container_Image = ''alpine:latest'', Container_Command = [''sh'', ''-c''],
               Source = placeholderSource (Step_Uses ghaStep) withParams\<rparr>\<rparr>]))
         else (jobTemplate', stepTemplates))"

fun convertSteps ::
  "string \<Rightarrow> string list \<Rightarrow> nat \<Rightarrow> Step list \<Rightarrow> Template \<times> Template list \<Rightarrow> Template \<times> Template list"
where
  "convertSteps jobTemplateName runsOn i [] st = st"
| "convertSteps jobTemplateName runsOn i (ghaStep # rest) st =
     convertSteps jobTemplateName runsOn (Suc i) rest
       (convertStep jobTemplateName runsOn i ghaStep st)"

text \<open>
  The state of the loop over \<open>ghaWF.Jobs\<close>: \<open>jobNames\<close>, the map \<open>jobDependencies\<close> and
  the templates of the document. The map \<open>jobTemplates\<close> of the source is written in the
  loop and never read; it is left out.
\<close>

record JobLoop =
  jobNames :: "string list"
  jobDependencies :: "string \<rightharpoonup> string list"
  templates :: "Template list"

definition convertJob :: "string \<times> Job \<Rightarrow> JobLoop \<Rightarrow> JobLoop" where
  "convertJob entry st =
     (let (jobName, ghaJob) = entry;
          jobTemplateName = sanitizeName jobName;
          needs = Job_Needs ghaJob;
          jobTemplate0 = \<lparr>Tmpl_Name = jobTemplateName, Steps = [], Script = None, DAG = None\<rparr>;
          (jobTemplate, stepTemplates) =
             convertSteps jobTemplateName (Job_RunsOn ghaJob) 0 (Job_Steps ghaJob) (jobTemplate0, [])
      in \<lparr>jobNames = jobNames st @ [jobTemplateName],
          jobDependencies = (jobDependencies st)(jobTemplateName \<mapsto> needs),
          templates = templates st @ [jobTemplate] @ stepTemplates\<rparr>)"

fun convertJobs :: "(string \<times> Job) list \<Rightarrow> JobLoop \<Rightarrow> JobLoop" where
  "convertJobs [] st = st"
| "convertJobs (entry # rest) st = convertJobs rest (convertJob entry st)"

text \<open>The loop that fills the DAG: one task for each entry of \<open>jobNames\<close>.\<close>

definition dagTaskFor :: "(string \<rightharpoonup> string list) \<Rightarrow> string \<Rightarrow> DAGTask" where
  "dagTaskFor deps jobTplName =
     \<lparr>Task_Name = jobTplName, Task_Template = jobTplName,
      Dependencies = (case deps jobTplName of
                        Some ds \<Rightarrow> (if length ds > 0 then ds else [])
                      | None \<Rightarrow> [])\<rparr>"

text \<open>
  \<open>convertGHAtoArgo\<close> from the parsed workflow on (steps 2 to 4 of the function): the
  document shell, the loop over the jobs, the entry point and the parallelism.
\<close>

definition convertModel :: "Workflow \<Rightarrow> ArgoWorkflow" where
  "convertModel ghaWF =
     (let st = convertJobs (WF_Jobs ghaWF)
                 \<lparr>jobNames = [], jobDependencies = Map.empty, templates = []\<rparr>;
          argoWF = \<lparr>APIVersion = ''argoproj.io/v1alpha1'', Kind = ''Workflow'',
                    GenerateName = sanitizeName (WF_Name ghaWF) @ ''-'',
                    Templates = templates st, Entrypoint = [], Parallelism = None\<rparr>;
          argoWF' =
            (if length (jobNames st) = 1 then argoWF\<lparr>Entrypoint := hd (jobNames st)\<rparr>
             else
               (let dagTemplate = \<lparr>Tmpl_Name = ''main-dag'', Steps = [], Script = None,
                      DAG = Some \<lparr>Tasks = map (dagTaskFor (jobDependencies st)) (jobNames st)\<rparr>\<rparr>
                in argoWF\<lparr>Entrypoint := Tmpl_Name dagTemplate,
                          Templates := Templates argoWF @ [dagTemplate]\<rparr>))
      in argoWF'\<lparr>Parallelism := Some 50\<rparr>)"

text \<open>
  \<open>convertGHAtoArgo\<close> itself. \<open>model.ReadWorkflow\<close> belongs to the parser library, not to
  this repository; it is a parameter, returning the parsed workflow or its error text.
\<close>

definition convertGHAtoArgo ::
  "(string \<Rightarrow> string + Workflow) \<Rightarrow> string \<Rightarrow> string + ArgoWorkflow" where
  "convertGHAtoArgo ReadWorkflow ghaYAML =
     (case ReadWorkflow ghaYAML of
        Inl err \<Rightarrow> Inl (''failed to parse GHA YAML using 'act': '' @ err)
      | Inr ghaWF \<Rightarrow> Inr (convertModel ghaWF))"

section \<open>What one job contributes, written without the loops\<close>

text \<open>
  The definitions of this section are not taken from the source. They state, as maps and
  filters over the numbered steps, what the loops above are proved to compute.
\<close>

definition skipped :: "Step \<Rightarrow> bool" where
  "skipped ghaStep = (Step_Run ghaStep = [] \<and> Step_Uses ghaStep = [])"

definition stepNameAt :: "nat \<Rightarrow> Step \<Rightarrow> string" where
  "stepNameAt i ghaStep =
     (if sanitizeName (Step_Name ghaStep) = [] then ''step-'' @ showNat i
      else sanitizeName (Step_Name ghaStep))"

definition stepRefAt :: "string \<Rightarrow> nat \<Rightarrow> Step \<Rightarrow> WorkflowStep" where
  "stepRefAt jobTemplateName i ghaStep =
     \<lparr>WS_Name = stepNameAt i ghaStep,
      WS_Template = jobTemplateName @ ''-'' @ stepNameAt i ghaStep\<rparr>"

definition baseImageOf :: "string list \<Rightarrow> string" where
  "baseImageOf runsOn = (case runsOn of r # _ \<Rightarrow> mapRunsOnToImage r | [] \<Rightarrow> ''alpine:latest'')"

definition withParamsOf :: "Step \<Rightarrow> string" where
  "withParamsOf ghaStep =
     (case Step_With ghaStep of None \<Rightarrow> [] | Some kvs \<Rightarrow> ''Parameters (with): '' @ showMap kvs)"

definition scriptOf :: "string list \<Rightarrow> Step \<Rightarrow> ScriptTemplate" where
  "scriptOf runsOn ghaStep =
     (if Step_Run ghaStep \<noteq> [] then
        \<lparr>Container_Image = baseImageOf runsOn, Container_Command = [''bash'', ''-c''],
         Source = Step_Run ghaStep\<rparr>
      else
        \<lparr>Container_Image = ''alpine:latest'', Container_Command = [''sh'', ''-c''],
         Source = placeholderSource (Step_Uses ghaStep) (withParamsOf ghaStep)\<rparr>)"

definition scriptTemplateAt :: "string \<Rightarrow> string list \<Rightarrow> nat \<Rightarrow> Step \<Rightarrow> Template" where
  "scriptTemplateAt jobTemplateName runsOn i ghaStep =
     \<lparr>Tmpl_Name = jobTemplateName @ ''-'' @ stepNameAt i ghaStep, Steps = [],
      Script = Some (scriptOf runsOn ghaStep), DAG = None\<rparr>"

definition stepsTemplateOf :: "string \<times> Job \<Rightarrow> Template" where
  "stepsTemplateOf entry =
     \<lparr>Tmpl_Name = sanitizeName (fst entry),
      Steps = map (\<lambda>(i, ghaStep). [stepRefAt (sanitizeName (fst entry)) i ghaStep])
                (enumerate 0 (Job_Steps (snd entry))),
      Script = None, DAG = None\<rparr>"

definition scriptTemplatesOf :: "string \<times> Job \<Rightarrow> Template list" where
  "scriptTemplatesOf entry =
     map (\<lambda>(i, ghaStep). scriptTemplateAt (sanitizeName (fst entry)) (Job_RunsOn (snd entry)) i ghaStep)
       (filter (\<lambda>(i, ghaStep). \<not> skipped ghaStep) (enumerate 0 (Job_Steps (snd entry))))"

text \<open>
  Two documents are the same up to the order of their entries: every field but the
  template list is equal, and the templates are the same multiset once the tasks of a DAG
  are themselves read as a multiset.
\<close>

definition templateUpToOrder ::
  "Template \<Rightarrow> string \<times> WorkflowStep list list \<times> ScriptTemplate option \<times> DAGTask multiset option" where
  "templateUpToOrder t = (Tmpl_Name t, Steps t, Script t, map_option (\<lambda>d. mset (Tasks d)) (DAG t))"

definition sameUpToOrder :: "ArgoWorkflow \<Rightarrow> ArgoWorkflow \<Rightarrow> bool" where
  "sameUpToOrder d1 d2 =
     (APIVersion d1 = APIVersion d2 \<and> Kind d1 = Kind d2 \<and> GenerateName d1 = GenerateName d2 \<and>
      Entrypoint d1 = Entrypoint d2 \<and> Parallelism d1 = Parallelism d2 \<and>
      mset (map templateUpToOrder (Templates d1)) = mset (map templateUpToOrder (Templates d2)))"

section \<open>The job queue, the worker pool and the result store\<close>

definition NumWorkers :: nat where
  "NumWorkers = 5"

definition MaxQueue :: nat where
  "MaxQueue = 100"

record ConversionJob =
  JobID :: string
  GhaYAML :: string

record ConversionResult =
  Result_JobID :: string
  ArgoYAML :: string
  Error :: "string option"

text \<open>
  The state of the service. \<open>JobQueue\<close> is the buffer of the channel, oldest job first.
  \<open>Workers\<close> has one entry for each worker goroutine: \<open>None\<close> while it waits to receive
  from the channel, \<open>Some job\<close> from the moment it has received \<open>job\<close> until it has stored
  the result. \<open>ResultStore\<close> is the \<open>sync.Map\<close>.
\<close>

record Server =
  JobQueue :: "ConversionJob list"
  Workers :: "ConversionJob option list"
  ResultStore :: "string \<rightharpoonup> ConversionResult"

record Response =
  StatusCode :: nat
  Body :: string

text \<open>\<open>http.Error\<close> writes the message and a line feed under the given status.\<close>

definition httpError :: "string \<Rightarrow> nat \<Rightarrow> Response" where
  "httpError msg code = \<lparr>StatusCode = code, Body = msg @ newline\<rparr>"

text \<open>
  \<open>handleConvert\<close>. \<open>body\<close> is what \<open>io.ReadAll\<close> returns, \<open>None\<close> for its error, and
  \<open>jobID\<close> is the string of \<open>uuid.New()\<close>. The \<open>select\<close> with a \<open>default\<close> branch sends
  when the buffer has room and takes the default branch when it is full; a worker that
  waits to receive only exists while the buffer is empty.
\<close>

definition handleConvert :: "string \<Rightarrow> string option \<Rightarrow> string \<Rightarrow> Server \<Rightarrow> Response \<times> Server" where
  "handleConvert method body jobID srv =
     (if method \<noteq> ''POST'' then (httpError ''Only POST method is allowed'' 405, srv)
      else case body of
        None \<Rightarrow> (httpError ''Failed to read request body'' 500, srv)
      | Some b \<Rightarrow>
          if length b = 0 then (httpError ''Request body is empty'' 400, srv)
          else
            (let job = \<lparr>JobID = jobID, GhaYAML = b\<rparr>
             in if length (JobQueue srv) < MaxQueue then
                  (\<lparr>StatusCode = 202,
                    Body = ''{'' @ quote @ ''jobID'' @ quote @ '':'' @ quote @ jobID @ quote @ '','' @
                           quote @ ''resultURL'' @ quote @ '':'' @ quote @ ''/result/'' @ jobID @ quote @ '','' @
                           quote @ ''status'' @ quote @ '':'' @ quote @ ''processing'' @ quote @ ''}'' @
                           newline\<rparr>,
                   srv\<lparr>JobQueue := JobQueue srv @ [job]\<rparr>)
                else (httpError ''Server busy, queue is full'' 503, srv)))"

text \<open>
  The body of a worker's loop after it has received \<open>job\<close>. \<open>yaml.Marshal\<close> is a
  parameter, like the parser.
\<close>

definition processJob ::
  "(string \<Rightarrow> string + Workflow) \<Rightarrow> (ArgoWorkflow \<Rightarrow> string + string) \<Rightarrow> ConversionJob \<Rightarrow> ConversionResult"
where
  "processJob ReadWorkflow Marshal job =
     (case convertGHAtoArgo ReadWorkflow (GhaYAML job) of
        Inl err \<Rightarrow> \<lparr>Result_JobID = JobID job, ArgoYAML = [], Error = Some err\<rparr>
      | Inr argoWF \<Rightarrow>
          (case Marshal argoWF of
             Inl marshalErr \<Rightarrow>
               \<lparr>Result_JobID = JobID job, ArgoYAML = [],
                Error = Some (''failed to marshal Argo YAML: '' @ marshalErr)\<rparr>
           | Inr yamlBytes \<Rightarrow> \<lparr>Result_JobID = JobID job, ArgoYAML = yamlBytes, Error = None\<rparr>))"

text \<open>
  Worker \<open>w\<close> receives the oldest job of the channel; it stays blocked when it is not
  waiting or the buffer is empty.
\<close>

definition workerReceive :: "nat \<Rightarrow> Server \<Rightarrow> Server" where
  "workerReceive w srv =
     (if w < length (Workers srv) \<and> Workers srv ! w = None then
        (case JobQueue srv of
           [] \<Rightarrow> srv
         | job # rest \<Rightarrow> srv\<lparr>JobQueue := rest, Workers := (Workers srv)[w := Some job]\<rparr>)
      else srv)"

text \<open>Worker \<open>w\<close> finishes the job it holds: \<open>resultStore.Store(job.JobID, result)\<close>.\<close>

definition workerStore ::
  "(string \<Rightarrow> string + Workflow) \<Rightarrow> (ArgoWorkflow \<Rightarrow> string + string) \<Rightarrow> nat \<Rightarrow> Server \<Rightarrow> Server"
where
  "workerStore ReadWorkflow Marshal w srv =
     (if w < length (Workers srv) then
        (case Workers srv ! w of
           None \<Rightarrow> srv
         | Some job \<Rightarrow>
             srv\<lparr>Workers := (Workers srv)[w := None],
                 ResultStore := (ResultStore srv)(JobID job \<mapsto> processJob ReadWorkflow Marshal job)\<rparr>)
      else srv)"

text \<open>\<open>strings.TrimPrefix\<close> and \<open>handleGetResult\<close>.\<close>

definition TrimPrefix :: "string \<Rightarrow> string \<Rightarrow> string" where
  "TrimPrefix s prefix = (if HasPrefix s prefix then drop (length prefix) s else s)"

definition handleGetResult :: "string \<Rightarrow> string \<Rightarrow> Server \<Rightarrow> Response" where
  "handleGetResult method path srv =
     (if method \<noteq> ''GET'' then httpError ''Only GET method is allowed'' 405
      else
        (let jobID = TrimPrefix path ''/result/''
         in if jobID = [] then httpError ''Job ID is missing'' 400
            else case ResultStore srv jobID of
              None \<Rightarrow>
                \<lparr>StatusCode = 404,
                 Body = ''{'' @ quote @ ''message'' @ quote @ '':'' @ quote @
                        ''Job not found or still processing'' @ quote @ '','' @
                        quote @ ''status'' @ quote @ '':'' @ quote @ ''not_found'' @ quote @ ''}'' @
                        newline\<rparr>
            | Some res \<Rightarrow>
                (case Error res of
                   Some err \<Rightarrow> httpError (''Failed to process job: '' @ err) 500
                 | None \<Rightarrow> \<lparr>StatusCode = 200, Body = ArgoYAML res\<rparr>)))"

text \<open>
  What can happen to the service, one atomic step at a time: a request to \<open>/convert\<close>, a
  worker receiving from the channel, a worker storing its result. A run is any sequence
  of these, in any interleaving.
\<close>

datatype Event =
  Convert string "string option" string
| Receive nat
| Store nat

fun step ::
  "(string \<Rightarrow> string + Workflow) \<Rightarrow> (ArgoWorkflow \<Rightarrow> string + string) \<Rightarrow> Event \<Rightarrow> Server \<Rightarrow> Server"
where
  "step ReadWorkflow Marshal (Convert method body jobID) srv = snd (handleConvert method body jobID srv)"
| "step ReadWorkflow Marshal (Receive w) srv = workerReceive w srv"
| "step ReadWorkflow Marshal (Store w) srv = workerStore ReadWorkflow Marshal w srv"

fun run ::
  "(string \<Rightarrow> string + Workflow) \<Rightarrow> (ArgoWorkflow \<Rightarrow> string + string) \<Rightarrow> Event list \<Rightarrow> Server \<Rightarrow> Server"
where
  "run ReadWorkflow Marshal [] srv = srv"
| "run ReadWorkflow Marshal (e # es) srv = run ReadWorkflow Marshal es (step ReadWorkflow Marshal e srv)"

text \<open>
  No job of the state carries the identifier \<open>j\<close>: none in the channel, none held by a
  worker, and no result is stored under \<open>j\<close>.
\<close>

definition unknownID :: "string \<Rightarrow> Server \<Rightarrow> bool" where
  "unknownID j srv =
     (list_all (\<lambda>job. JobID job \<noteq> j) (JobQueue srv) \<and>
      list_all (\<lambda>w. case w of None \<Rightarrow> True | Some job \<Rightarrow> JobID job \<noteq> j) (Workers srv) \<and>
      ResultStore srv j = None)"

fun submits :: "string \<Rightarrow> Event \<Rightarrow> bool" where
  "submits j (Convert method body jobID) = (jobID = j)"
| "submits j (Receive w) = False"
| "submits j (Store w) = False"

section \<open>The synchronous service\<close>

text \<open>
  The second \<open>main\<close> package of the repository keeps no result store: a job carries its
  payload and the channel on which the worker sends the result back, and
  \<open>handleConversion\<close> waits on that channel after a successful send. A channel is
  identified by a number. The handler is modelled up to the point where it either has
  answered, of which the status code is kept, or starts to wait for the worker.
\<close>

record SyncJob =
  Payload :: string
  ResultChan :: nat

datatype Submission = Answered nat | WaitingOn nat

definition handleConversion ::
  "string \<Rightarrow> string option \<Rightarrow> nat \<Rightarrow> SyncJob list \<Rightarrow> Submission \<times> SyncJob list" where
  "handleConversion method body resultChan queue =
     (if method \<noteq> ''POST'' then (Answered 405, queue)
      else case body of
        None \<Rightarrow> (Answered 400, queue)
      | Some b \<Rightarrow>
          if length b = 0 then (Answered 400, queue)
          else
            (let job = \<lparr>Payload = b, ResultChan = resultChan\<rparr>
             in if length queue < MaxQueue then (WaitingOn resultChan, queue @ [job])
                else (Answered 503, queue)))"


section \<open>Properties of the sanitizer\<close>

lemma isDNSSafe_lowerByte: "isDNSSafe c \<Longrightarrow> lowerByte c = c"
  by (auto simp: isDNSSafe_def isAlnum_def isDash_def lowerByte_def isUpperASCII_def)

lemma isDNSSafe_not_lead: "isDNSSafe c \<Longrightarrow> c \<noteq> CHR 0xE2 \<and> c \<noteq> CHR 0xC4"
  by (auto simp: isDNSSafe_def isAlnum_def isDash_def)

lemma ToLower_safe: "list_all isDNSSafe s \<Longrightarrow> ToLower s = s"
  by (induction s rule: ToLower.induct) (auto simp: isDNSSafe_lowerByte dest: isDNSSafe_not_lead)

lemma replaceRuns_all_safe: "list_all isDNSSafe (replaceRuns b s)"
  by (induction s arbitrary: b) (auto simp: isDNSSafe_def isDash_def)

lemma replaceRuns_safe: "list_all isDNSSafe s \<Longrightarrow> replaceRuns b s = s"
  by (induction s arbitrary: b) auto

lemma edgeDash_prefix:
  "dropWhile isDash s = edgeDashReplaceAll s @ rev (takeWhile isDash (rev (dropWhile isDash s)))"
proof -
  have "rev (dropWhile isDash s) = takeWhile isDash (rev (dropWhile isDash s)) @ dropWhile isDash (rev (dropWhile isDash s))"
    by simp
  then have "rev (rev (dropWhile isDash s)) = rev (takeWhile isDash (rev (dropWhile isDash s)) @ dropWhile isDash (rev (dropWhile isDash s)))"
    by simp
  then show ?thesis unfolding edgeDashReplaceAll_def by (simp del: takeWhile_dropWhile_id)
qed

lemma set_edgeDash: "set (edgeDashReplaceAll s) \<subseteq> set s"
proof -
  have "set (edgeDashReplaceAll s) \<subseteq> set (dropWhile isDash s)"
    by (metis edgeDash_prefix set_append Un_upper1)
  also have "\<dots> \<subseteq> set s" by (auto dest: set_dropWhileD)
  finally show ?thesis .
qed

lemma hd_edgeDash: "edgeDashReplaceAll s \<noteq> [] \<Longrightarrow> \<not> isDash (hd (edgeDashReplaceAll s))"
proof -
  assume ne: "edgeDashReplaceAll s \<noteq> []"
  then have "hd (dropWhile isDash s) = hd (edgeDashReplaceAll s)"
    by (metis edgeDash_prefix hd_append2)
  moreover have "dropWhile isDash s \<noteq> []" using ne by (metis edgeDashReplaceAll_def rev.simps(1) dropWhile.simps(1))
  ultimately show ?thesis using hd_dropWhile[of isDash s] by simp
qed

lemma edgeDash_hd: "s \<noteq> [] \<Longrightarrow> \<not> isDash (hd s) \<Longrightarrow> edgeDashReplaceAll s = rev (dropWhile isDash (rev s))"
  by (cases s) (auto simp: edgeDashReplaceAll_def)

lemma rev_dropWhile_rev_id: "(rev (dropWhile P (rev s)) = s) = (s = [] \<or> \<not> P (last s))"
proof (cases s rule: rev_cases)
  case Nil
  then show ?thesis by simp
next
  case (snoc xs x)
  have "length (dropWhile P (rev xs)) \<le> length xs"
    using length_dropWhile_le[of P "rev xs"] by simp
  then have "rev (dropWhile P (rev xs)) \<noteq> xs @ [x]"
    by (metis length_rev length_append_singleton Suc_n_not_le_n)
  with snoc show ?thesis by simp
qed

lemma sanitizeName_all_safe: "list_all isDNSSafe (sanitizeName x)"
proof -
  have "list_all isDNSSafe ''unnamed''"
    by (simp add: isDNSSafe_def isAlnum_def)
  moreover have "list_all isDNSSafe (edgeDashReplaceAll (nonDNSSafeReplaceAll (ToLower x)))"
    using replaceRuns_all_safe[of False "ToLower x"] set_edgeDash[of "nonDNSSafeReplaceAll (ToLower x)"]
    by (auto simp: nonDNSSafeReplaceAll_def list_all_iff)
  ultimately show ?thesis
    by (auto simp: sanitizeName_def Let_def list_all_iff dest: in_set_takeD)
qed

lemma length_sanitizeName: "length (sanitizeName x) \<le> 63"
  by (simp add: sanitizeName_def Let_def)

lemma hd_sanitizeName: "sanitizeName x \<noteq> [] \<Longrightarrow> \<not> isDash (hd (sanitizeName x))"
proof (cases "x = []")
  case True
  then show ?thesis by (simp add: sanitizeName_def isDash_def)
next
  case False
  assume ne: "sanitizeName x \<noteq> []"
  let ?e = "edgeDashReplaceAll (nonDNSSafeReplaceAll (ToLower x))"
  have "?e \<noteq> []" using ne False by (auto simp: sanitizeName_def Let_def split: if_splits)
  then have "\<not> isDash (hd ?e)" by (rule hd_edgeDash)
  moreover have "hd (sanitizeName x) = hd ?e" using False by (simp add: sanitizeName_def Let_def)
  ultimately show ?thesis by simp
qed

lemma sanitizeName_of_safe:
  assumes "s \<noteq> []" "list_all isDNSSafe s" "\<not> isDash (hd s)" "length s \<le> 63"
  shows "sanitizeName s = rev (dropWhile isDash (rev s))"
proof -
  have e: "edgeDashReplaceAll s = rev (dropWhile isDash (rev s))"
    using assms by (simp add: edgeDash_hd)
  have "length (rev (dropWhile isDash (rev s))) \<le> length s"
    using length_dropWhile_le[of isDash "rev s"] by simp
  then have "\<not> length (edgeDashReplaceAll s) > 63" using assms(4) e by simp
  then show ?thesis
    using assms e by (simp add: sanitizeName_def Let_def nonDNSSafeReplaceAll_def ToLower_safe replaceRuns_safe)
qed

lemma sanitizeName_twice:
  "(sanitizeName (sanitizeName x) = sanitizeName x) =
   (sanitizeName x \<noteq> [] \<and> last (sanitizeName x) \<noteq> CHR ''-'')"
proof (cases "sanitizeName x = []")
  case True
  then show ?thesis by (simp add: sanitizeName_def)
next
  case False
  then have "sanitizeName (sanitizeName x) = rev (dropWhile isDash (rev (sanitizeName x)))"
    by (intro sanitizeName_of_safe sanitizeName_all_safe hd_sanitizeName length_sanitizeName)
  then show ?thesis using False rev_dropWhile_rev_id[of isDash "sanitizeName x"]
    by (simp add: isDash_def)
qed

lemma isAlnum_not_isDash: "isAlnum c \<Longrightarrow> \<not> isDash c"
  by (auto simp: isAlnum_def isDash_def)

lemma not_isAlnum_dash: "\<not> isAlnum CHR ''-''"
  by (simp add: isAlnum_def)

lemma list_ex_replaceRuns: "list_ex isAlnum (replaceRuns b s) = list_ex isAlnum s"
  by (induction s arbitrary: b) (auto simp: isDNSSafe_def not_isAlnum_dash)

lemma edgeDash_Nil_iff: "(edgeDashReplaceAll t = []) = list_all isDash t"
proof
  assume e: "edgeDashReplaceAll t = []"
  have "dropWhile isDash t = []"
  proof (rule ccontr)
    assume ne: "dropWhile isDash t \<noteq> []"
    then have "\<not> isDash (hd (dropWhile isDash t))" by (rule hd_dropWhile)
    moreover have "hd (dropWhile isDash t) \<in> set (dropWhile isDash t)" using ne by (rule hd_in_set)
    moreover have "\<forall>c \<in> set (dropWhile isDash t). isDash c"
      using e by (simp add: edgeDashReplaceAll_def)
    ultimately show False by blast
  qed
  then show "list_all isDash t" by (simp add: list_all_iff)
next
  assume "list_all isDash t"
  then show "edgeDashReplaceAll t = []"
    by (auto simp: edgeDashReplaceAll_def list_all_iff dest: set_dropWhileD)
qed

lemma safe_all_dash_iff: "list_all isDNSSafe t \<Longrightarrow> list_all isDash t = (\<not> list_ex isAlnum t)"
  by (induction t) (auto simp: isDNSSafe_def isAlnum_not_isDash)

lemma sanitizeName_nonempty_iff:
  "(sanitizeName x \<noteq> []) = (x = [] \<or> list_ex isAlnum (ToLower x))"
proof (cases "x = []")
  case True
  then show ?thesis by (simp add: sanitizeName_def)
next
  case False
  let ?r = "nonDNSSafeReplaceAll (ToLower x)"
  have "(edgeDashReplaceAll ?r = []) = (\<not> list_ex isAlnum (ToLower x))"
    using safe_all_dash_iff[of ?r] replaceRuns_all_safe[of False "ToLower x"]
      list_ex_replaceRuns[of False "ToLower x"]
    by (simp add: edgeDash_Nil_iff nonDNSSafeReplaceAll_def)
  then show ?thesis using False by (auto simp: sanitizeName_def Let_def)
qed

lemma sanitizeName_Build_App: "sanitizeName ''Build App'' = ''build-app''"
  by code_simp

text \<open>
  C2, as amended. Sanitizing a second time changes nothing for every input whose
  sanitized name is not empty and does not end with a dash.
\<close>

theorem sanitizeName_idempotent:
  "sanitizeName x \<noteq> [] \<Longrightarrow> last (sanitizeName x) \<noteq> CHR ''-'' \<Longrightarrow>
   sanitizeName (sanitizeName x) = sanitizeName x"
  by (simp add: sanitizeName_twice)

theorem sanitizeName_idempotent_witness:
  "sanitizeName ''Build App'' \<noteq> [] \<and> last (sanitizeName ''Build App'') \<noteq> CHR ''-'' \<and>
   sanitizeName (sanitizeName ''Build App'') = sanitizeName ''Build App''"
  using sanitizeName_idempotent [of "''Build App''"] by (simp add: sanitizeName_Build_App)

text \<open>
  C2 as it is stated fails on the name \<open>-\<close>: it is sanitized to the empty string, and the
  empty string to \<open>unnamed\<close>.
\<close>

theorem sanitizeName_not_idempotent:
  "sanitizeName (sanitizeName ''-'') \<noteq> sanitizeName ''-''"
  by code_simp

text \<open>
  C3, as amended. Every sanitized name is made of the characters \<open>a-z\<close>, \<open>0-9\<close> and \<open>-\<close>
  and has at most 63 of them. It is not empty exactly when the input is empty, which
  gives \<open>unnamed\<close>, or the lowercased input holds a letter \<open>a-z\<close> or a digit.
\<close>

theorem sanitizeName_label:
  "list_all isDNSSafe (sanitizeName x) \<and> length (sanitizeName x) \<le> 63 \<and>
   (sanitizeName x \<noteq> []) = (x = [] \<or> list_ex isAlnum (ToLower x))"
  using sanitizeName_all_safe [of x] length_sanitizeName [of x] sanitizeName_nonempty_iff [of x]
  by simp

text \<open>
  C3 as it is stated fails on the name \<open>!\<close>: the input is not empty and its sanitized name
  is.
\<close>

theorem sanitizeName_empty_result:
  "''!'' \<noteq> [] \<and> sanitizeName ''!'' = []"
  by code_simp

section \<open>Properties of the converter\<close>

lemma convertStep_eq:
  "convertStep jn ro i s (jt, sts) =
     (jt\<lparr>Steps := Steps jt @ [[stepRefAt jn i s]]\<rparr>,
      if skipped s then sts else sts @ [scriptTemplateAt jn ro i s])"
  by (simp add: convertStep_def Let_def stepRefAt_def stepNameAt_def skipped_def
      scriptTemplateAt_def scriptOf_def baseImageOf_def withParamsOf_def)

lemma convertSteps_eq:
  "convertSteps jn ro i steps (jt, sts) =
     (jt\<lparr>Steps := Steps jt @ map (\<lambda>(k, s). [stepRefAt jn k s]) (enumerate i steps)\<rparr>,
      sts @ map (\<lambda>(k, s). scriptTemplateAt jn ro k s)
              (filter (\<lambda>(k, s). \<not> skipped s) (enumerate i steps)))"
  by (induction steps arbitrary: i jt sts) (simp_all add: convertStep_eq)

lemma convertJob_eq:
  "convertJob entry st =
     \<lparr>jobNames = jobNames st @ [sanitizeName (fst entry)],
      jobDependencies = (jobDependencies st)(sanitizeName (fst entry) \<mapsto> Job_Needs (snd entry)),
      templates = templates st @ stepsTemplateOf entry # scriptTemplatesOf entry\<rparr>"
  by (cases entry) (simp add: convertJob_def Let_def convertSteps_eq stepsTemplateOf_def scriptTemplatesOf_def)

lemma jobNames_convertJobs:
  "jobNames (convertJobs jobs st) = jobNames st @ map (\<lambda>e. sanitizeName (fst e)) jobs"
  by (induction jobs arbitrary: st) (simp_all add: convertJob_eq)

lemma templates_convertJobs:
  "templates (convertJobs jobs st) =
     templates st @ concat (map (\<lambda>e. stepsTemplateOf e # scriptTemplatesOf e) jobs)"
  by (induction jobs arbitrary: st) (simp_all add: convertJob_eq)

lemma jobDependencies_convertJobs:
  "jobDependencies (convertJobs jobs st) =
     jobDependencies st ++ map_of (rev (map (\<lambda>e. (sanitizeName (fst e), Job_Needs (snd e))) jobs))"
  by (induction jobs arbitrary: st) (simp_all add: convertJob_eq map_add_upd_left)

lemma hd_map_singleton: "length xs = Suc 0 \<Longrightarrow> hd (map f xs) = f (hd xs)"
  by (cases xs) simp_all

lemma convertModel_eq:
  "convertModel ghaWF =
     \<lparr>APIVersion = ''argoproj.io/v1alpha1'', Kind = ''Workflow'',
      GenerateName = sanitizeName (WF_Name ghaWF) @ ''-'',
      Templates =
        concat (map (\<lambda>e. stepsTemplateOf e # scriptTemplatesOf e) (WF_Jobs ghaWF)) @
        (if length (WF_Jobs ghaWF) = 1 then []
         else [\<lparr>Tmpl_Name = ''main-dag'', Steps = [], Script = None,
                 DAG = Some \<lparr>Tasks =
                   map (dagTaskFor (map_of (rev (map (\<lambda>e. (sanitizeName (fst e), Job_Needs (snd e)))
                                                   (WF_Jobs ghaWF)))))
                       (map (\<lambda>e. sanitizeName (fst e)) (WF_Jobs ghaWF))\<rparr>\<rparr>]),
      Entrypoint =
        (if length (WF_Jobs ghaWF) = 1 then sanitizeName (fst (hd (WF_Jobs ghaWF)))
         else ''main-dag''),
      Parallelism = Some 50\<rparr>"
  by (simp add: convertModel_def Let_def jobNames_convertJobs templates_convertJobs
      jobDependencies_convertJobs hd_map_singleton)

lemma DAG_stepsTemplateOf: "DAG (stepsTemplateOf e) = None"
  by (simp add: stepsTemplateOf_def)

lemma DAG_scriptTemplatesOf: "list_all (\<lambda>t. DAG t = None) (scriptTemplatesOf e)"
  by (simp add: scriptTemplatesOf_def scriptTemplateAt_def list_all_iff split_beta)

lemma DAG_job_templates:
  "filter (\<lambda>t. DAG t \<noteq> None)
     (concat (map (\<lambda>e. stepsTemplateOf e # scriptTemplatesOf e) jobs)) = []"
  using DAG_scriptTemplatesOf
  by (auto simp: filter_empty_conv DAG_stepsTemplateOf list_all_iff)

lemma length_scriptTemplatesOf:
  "length (scriptTemplatesOf e) = length (filter (\<lambda>s. \<not> skipped s) (Job_Steps (snd e)))"
proof -
  have "length (filter (\<lambda>(k, s). \<not> skipped s) (enumerate n steps)) =
        length (filter (\<lambda>s. \<not> skipped s) steps)" for n and steps :: "Step list"
    by (induction steps arbitrary: n) simp_all
  then show ?thesis by (simp add: scriptTemplatesOf_def)
qed

lemma scriptTemplatesOf_Nil:
  assumes "list_all skipped (Job_Steps (snd e))"
  shows "scriptTemplatesOf e = []"
proof -
  have "filter (\<lambda>s. \<not> skipped s) (Job_Steps (snd e)) = []"
    using assms by (simp add: filter_empty_conv list_all_iff)
  then have "length (scriptTemplatesOf e) = 0"
    by (simp add: length_scriptTemplatesOf)
  then show ?thesis by simp
qed

lemma Tmpl_Name_scriptTemplatesOf:
  "map Tmpl_Name (scriptTemplatesOf e) =
     map (\<lambda>(ref, ghaStep). WS_Template (hd ref))
       (filter (\<lambda>(ref, ghaStep). \<not> skipped ghaStep)
          (zip (Steps (stepsTemplateOf e)) (Job_Steps (snd e))))"
proof -
  have "map Tmpl_Name (map (\<lambda>(k, s). scriptTemplateAt jn ro k s)
          (filter (\<lambda>(k, s). \<not> skipped s) (enumerate n steps))) =
        map (\<lambda>(ref, s). WS_Template (hd ref))
          (filter (\<lambda>(ref, s). \<not> skipped s)
             (zip (map (\<lambda>(k, s). [stepRefAt jn k s]) (enumerate n steps)) steps))"
    for jn ro n and steps :: "Step list"
    by (induction steps arbitrary: n) (simp_all add: scriptTemplateAt_def stepRefAt_def)
  then show ?thesis by (simp add: scriptTemplatesOf_def stepsTemplateOf_def)
qed

lemma sanitizeName_A: "sanitizeName ''A'' = ''a''"
  by code_simp

lemma sanitizeName_B: "sanitizeName ''B'' = ''b''"
  by code_simp

text \<open>
  C1. With the jobs \<open>A\<close> and \<open>B\<close>, where \<open>B\<close> needs \<open>A\<close>, the task of \<open>B\<close> depends on \<open>A\<close> as
  it is written in the workflow, although the task of \<open>A\<close> is named \<open>a\<close>: the \<open>needs\<close> are
  stored as they come and only the key they are stored under is sanitized.
\<close>

theorem convertModel_needs_verbatim:
  "DAG (last (Templates (convertModel
     \<lparr>WF_Name = ''ci'',
      WF_Jobs =
        [(''A'', \<lparr>Job_Steps = [\<lparr>Step_Name = ''compile'', Step_Run = ''make'', Step_Uses = [],
                                 Step_With = None\<rparr>],
                   Job_Needs = [], Job_RunsOn = [''ubuntu-latest'']\<rparr>),
         (''B'', \<lparr>Job_Steps = [\<lparr>Step_Name = ''check'', Step_Run = ''make check'', Step_Uses = [],
                                 Step_With = None\<rparr>],
                   Job_Needs = [''A''], Job_RunsOn = [''ubuntu-latest'']\<rparr>)]\<rparr>))) =
   Some \<lparr>Tasks = [\<lparr>Task_Name = ''a'', Task_Template = ''a'', Dependencies = []\<rparr>,
                  \<lparr>Task_Name = ''b'', Task_Template = ''b'', Dependencies = [''A'']\<rparr>]\<rparr>"
  by (simp add: convertModel_eq dagTaskFor_def sanitizeName_A sanitizeName_B)

lemma sanitizeName_build: "sanitizeName ''build'' = ''build''"
  by code_simp

text \<open>
  C4. With exactly one job the entry point is the sanitized name of that job and no
  template of the document is a DAG. With more than one job the entry point is \<open>main-dag\<close>,
  the last template is the only DAG of the document, it is named \<open>main-dag\<close>, and its tasks
  are named after the sanitized job names, one for each job, each with the job's template.
\<close>

theorem convertModel_entrypoint:
  "(length (WF_Jobs ghaWF) = 1 \<longrightarrow>
      Entrypoint (convertModel ghaWF) = sanitizeName (fst (hd (WF_Jobs ghaWF))) \<and>
      filter (\<lambda>t. DAG t \<noteq> None) (Templates (convertModel ghaWF)) = []) \<and>
   (length (WF_Jobs ghaWF) > 1 \<longrightarrow>
      Entrypoint (convertModel ghaWF) = ''main-dag'' \<and>
      (\<exists>tasks.
         filter (\<lambda>t. DAG t \<noteq> None) (Templates (convertModel ghaWF)) =
           [\<lparr>Tmpl_Name = ''main-dag'', Steps = [], Script = None, DAG = Some \<lparr>Tasks = tasks\<rparr>\<rparr>] \<and>
         last (Templates (convertModel ghaWF)) =
           \<lparr>Tmpl_Name = ''main-dag'', Steps = [], Script = None, DAG = Some \<lparr>Tasks = tasks\<rparr>\<rparr> \<and>
         map Task_Name tasks = map (\<lambda>e. sanitizeName (fst e)) (WF_Jobs ghaWF) \<and>
         map Task_Template tasks = map (\<lambda>e. sanitizeName (fst e)) (WF_Jobs ghaWF)))"
  by (simp add: convertModel_eq DAG_job_templates dagTaskFor_def del: not_None_eq)

theorem convertModel_entrypoint_witness:
  "Entrypoint (convertModel
     \<lparr>WF_Name = ''ci'',
      WF_Jobs = [(''build'', \<lparr>Job_Steps = [], Job_Needs = [], Job_RunsOn = []\<rparr>)]\<rparr>) = ''build'' \<and>
   Entrypoint (convertModel
     \<lparr>WF_Name = ''ci'',
      WF_Jobs = [(''build'', \<lparr>Job_Steps = [], Job_Needs = [], Job_RunsOn = []\<rparr>),
                 (''test'', \<lparr>Job_Steps = [], Job_Needs = [''build''], Job_RunsOn = []\<rparr>)]\<rparr>) =
     ''main-dag''"
  using
    convertModel_entrypoint
      [of "\<lparr>WF_Name = ''ci'',
            WF_Jobs = [(''build'', \<lparr>Job_Steps = [], Job_Needs = [], Job_RunsOn = []\<rparr>)]\<rparr>"]
    convertModel_entrypoint
      [of "\<lparr>WF_Name = ''ci'',
            WF_Jobs = [(''build'', \<lparr>Job_Steps = [], Job_Needs = [], Job_RunsOn = []\<rparr>),
                       (''test'', \<lparr>Job_Steps = [], Job_Needs = [''build''], Job_RunsOn = []\<rparr>)]\<rparr>"]
  by (simp add: sanitizeName_build)

lemma sanitizeName_lint: "sanitizeName ''lint'' = ''lint''"
  by code_simp

lemma sanitizeName_noop: "sanitizeName ''noop'' = ''noop''"
  by code_simp

text \<open>
  C9. The templates of the document are, job after job, the job's steps template followed
  by its script templates, and what follows them holds no script. The steps template has
  one reference for each step of the job. The script templates are those of the steps
  that are not skipped, in the order of the steps: their names are the templates that the
  references of these steps name. A job whose steps are all skipped has no script
  template.
\<close>

theorem convertModel_job_templates:
  "(\<exists>dag. Templates (convertModel ghaWF) =
            concat (map (\<lambda>e. stepsTemplateOf e # scriptTemplatesOf e) (WF_Jobs ghaWF)) @ dag \<and>
          list_all (\<lambda>t. Script t = None \<and> Steps t = []) dag) \<and>
   Script (stepsTemplateOf e) = None \<and>
   length (Steps (stepsTemplateOf e)) = length (Job_Steps (snd e)) \<and>
   list_all (\<lambda>t. Script t \<noteq> None) (scriptTemplatesOf e) \<and>
   map Tmpl_Name (scriptTemplatesOf e) =
     map (\<lambda>(ref, ghaStep). WS_Template (hd ref))
       (filter (\<lambda>(ref, ghaStep). \<not> skipped ghaStep)
          (zip (Steps (stepsTemplateOf e)) (Job_Steps (snd e)))) \<and>
   (list_all skipped (Job_Steps (snd e)) \<longrightarrow> scriptTemplatesOf e = [])"
proof -
  have "list_all (\<lambda>t. Script t \<noteq> None) (scriptTemplatesOf e)"
    by (simp add: scriptTemplatesOf_def scriptTemplateAt_def list_all_iff split_beta)
  moreover have "length (Steps (stepsTemplateOf e)) = length (Job_Steps (snd e))"
    by (simp add: stepsTemplateOf_def)
  moreover have "Script (stepsTemplateOf e) = None"
    by (simp add: stepsTemplateOf_def)
  ultimately show ?thesis
    using Tmpl_Name_scriptTemplatesOf [of e]
    by (simp add: convertModel_eq scriptTemplatesOf_Nil)
qed

theorem convertModel_job_templates_witness:
  "list_all skipped
     (Job_Steps (snd (''lint'',
        \<lparr>Job_Steps = [\<lparr>Step_Name = ''noop'', Step_Run = [], Step_Uses = [], Step_With = None\<rparr>],
         Job_Needs = [], Job_RunsOn = [''ubuntu-latest'']\<rparr>))) \<and>
   Templates (convertModel
     \<lparr>WF_Name = ''ci'',
      WF_Jobs = [(''lint'',
        \<lparr>Job_Steps = [\<lparr>Step_Name = ''noop'', Step_Run = [], Step_Uses = [], Step_With = None\<rparr>],
         Job_Needs = [], Job_RunsOn = [''ubuntu-latest'']\<rparr>)]\<rparr>) =
     [\<lparr>Tmpl_Name = ''lint'',
       Steps = [[\<lparr>WS_Name = ''noop'', WS_Template = ''lint-noop''\<rparr>]],
       Script = None, DAG = None\<rparr>]"
  using convertModel_job_templates
    [of "\<lparr>WF_Name = ''ci'',
          WF_Jobs = [(''lint'',
            \<lparr>Job_Steps = [\<lparr>Step_Name = ''noop'', Step_Run = [], Step_Uses = [], Step_With = None\<rparr>],
             Job_Needs = [], Job_RunsOn = [''ubuntu-latest'']\<rparr>)]\<rparr>"
        "(''lint'',
            \<lparr>Job_Steps = [\<lparr>Step_Name = ''noop'', Step_Run = [], Step_Uses = [], Step_With = None\<rparr>],
             Job_Needs = [], Job_RunsOn = [''ubuntu-latest'']\<rparr>)"]
  by (simp add: skipped_def convertModel_eq stepsTemplateOf_def stepRefAt_def stepNameAt_def
      sanitizeName_lint sanitizeName_noop)

lemma sanitizeName_ci: "sanitizeName ''ci'' = ''ci''"
  by code_simp

text \<open>
  C10. A workflow without jobs is converted without an error: \<open>jobNames\<close> is empty, its
  length is not 1, and the document gets the template \<open>main-dag\<close> with no task as its only
  template and as its entry point.
\<close>

theorem convertGHAtoArgo_no_jobs:
  "ReadWorkflow ghaYAML = Inr ghaWF \<Longrightarrow> WF_Jobs ghaWF = [] \<Longrightarrow>
   convertGHAtoArgo ReadWorkflow ghaYAML =
     Inr \<lparr>APIVersion = ''argoproj.io/v1alpha1'', Kind = ''Workflow'',
          GenerateName = sanitizeName (WF_Name ghaWF) @ ''-'',
          Templates = [\<lparr>Tmpl_Name = ''main-dag'', Steps = [], Script = None,
                        DAG = Some \<lparr>Tasks = []\<rparr>\<rparr>],
          Entrypoint = ''main-dag'', Parallelism = Some 50\<rparr>"
  by (simp add: convertGHAtoArgo_def convertModel_def)

theorem convertGHAtoArgo_no_jobs_witness:
  "convertGHAtoArgo (\<lambda>y. Inr \<lparr>WF_Name = ''ci'', WF_Jobs = []\<rparr>) ''on: push'' =
     Inr \<lparr>APIVersion = ''argoproj.io/v1alpha1'', Kind = ''Workflow'',
          GenerateName = ''ci-'',
          Templates = [\<lparr>Tmpl_Name = ''main-dag'', Steps = [], Script = None,
                        DAG = Some \<lparr>Tasks = []\<rparr>\<rparr>],
          Entrypoint = ''main-dag'', Parallelism = Some 50\<rparr>"
  using convertGHAtoArgo_no_jobs
    [of "\<lambda>y. Inr \<lparr>WF_Name = ''ci'', WF_Jobs = []\<rparr>" "''on: push''"
        "\<lparr>WF_Name = ''ci'', WF_Jobs = []\<rparr>"]
  by (simp add: sanitizeName_ci)

end
